theory Spec2Isabelle
  imports Main
begin

section \<open>echosentry: a panic-recovering echo middleware that reports to Sentry\<close>

text \<open>
  The package (capture.go) keeps two package-level variables, \<open>sentry\<close> and \<open>tagsFunc\<close>,
  offers three setters (\<open>SetDSN\<close>, \<open>WithContext\<close>, \<open>SetTags\<close>) and one middleware factory.
  The middleware wraps a handler in a function that defers a closure; the closure calls
  \<open>recover()\<close> and, when a panic is in flight, builds a raven packet, hands it to the
  raven client and registers an error on the echo context.

  The embedding passes state explicitly. The process state (\<open>world\<close>) holds the two
  package variables and the traces of what the code did to its collaborators; the
  per-request object behind \<open>echo.Context\<close> is a second state component, threaded next to
  it. A handler is a function of both that ends by returning or by panicking.

  raven-go, echo, fmt and ioutil are libraries outside the package. Their values are
  modelled by the calls that build them (which constructor was called, on which
  arguments), their effects by entries in a trace.
\<close>

subsection \<open>Values of the collaborating libraries\<close>

text \<open>Go's \<open>error\<close> values, built by \<open>errors.New\<close>; \<open>Error\<close> is the method reading the message.\<close>

datatype error = errors_New (Error: string)

text \<open>
  The value \<open>recover()\<close> yields while a panic is in flight: a string (\<open>panic("boom")\<close>), an
  error (a runtime error, or \<open>panic(err)\<close>), or any other value, kept by its default
  rendering. \<open>fmt.Sprint\<close> of one operand prints a string as it is, an error by its
  \<open>Error()\<close> method and anything else in that default rendering. These are the non-nil
  values; a nil result of \<open>recover()\<close> is \<open>None\<close> of type \<open>rval option\<close>.
\<close>

datatype rval = StringVal string | ErrorVal error | OtherVal string

fun fmt_Sprint :: "rval \<Rightarrow> string" where
  "fmt_Sprint (StringVal s) = s"
| "fmt_Sprint (ErrorVal e) = Error e"
| "fmt_Sprint (OtherVal s) = s"

text \<open>
  A call stack is the list of its frames, innermost first. \<open>raven.NewStacktrace(skip,
  context, appPackagePrefixes)\<close> walks the stack of its caller and leaves out the first
  \<open>skip\<close> frames, counted from the caller's own frame; \<open>context\<close> is the number of source
  lines kept around each frame's line.
\<close>

type_synonym frame = string

record Stacktrace =
  Frames :: "frame list"
  ContextLines :: nat
  AppPackagePrefixes :: "string list option"

definition raven_NewStacktrace ::
  "nat \<Rightarrow> nat \<Rightarrow> string list option \<Rightarrow> frame list \<Rightarrow> Stacktrace" where
  "raven_NewStacktrace skip context appPackagePrefixes stack =
     \<lparr>Frames = drop skip stack, ContextLines = context,
      AppPackagePrefixes = appPackagePrefixes\<rparr>"

datatype Exception = raven_NewException error Stacktrace

text \<open>
  The request behind \<open>c.Request()\<close>. \<open>Body\<close> is the body stream: \<open>None\<close> is Go's nil,
  \<open>Some s\<close> a stream whose unread rest is \<open>s\<close>. \<open>ioutil.ReadAll\<close> returns the unread rest
  and leaves the stream exhausted.
\<close>

record request =
  Method :: string
  URL :: string
  Header :: "(string \<times> string) list"
  Body :: "string option"

definition ioutil_ReadAll :: "string \<Rightarrow> string \<times> string" where
  "ioutil_ReadAll s = (s, [])"

text \<open>
  \<open>raven.Http\<close>: either the zero value \<open>&raven.Http{}\<close> or the value \<open>raven.NewHttp\<close>
  builds from a request's method, URL and headers (it does not read the body).
\<close>

datatype Http = Http_zero | Http_of string string "(string \<times> string) list"

definition raven_NewHttp :: "request \<Rightarrow> Http" where
  "raven_NewHttp req = Http_of (Method req) (URL req) (Header req)"

text \<open>
  \<open>raven.Extra\<close> is a map from keys to values. A packet is built by one of two
  constructors; only \<open>raven.NewPacketWithExtra\<close> takes an extra section.
\<close>

type_synonym Extra = "string \<rightharpoonup> string"

datatype Packet =
  raven_NewPacket string Exception Http
| raven_NewPacketWithExtra string Extra Exception Http

fun Message :: "Packet \<Rightarrow> string" where
  "Message (raven_NewPacket m e h) = m"
| "Message (raven_NewPacketWithExtra m x e h) = m"

fun Extra_of :: "Packet \<Rightarrow> Extra option" where
  "Extra_of (raven_NewPacket m e h) = None"
| "Extra_of (raven_NewPacketWithExtra m x e h) = Some x"

fun Exception_of :: "Packet \<Rightarrow> Exception" where
  "Exception_of (raven_NewPacket m e h) = e"
| "Exception_of (raven_NewPacketWithExtra m x e h) = e"

fun Http_of_packet :: "Packet \<Rightarrow> Http" where
  "Http_of_packet (raven_NewPacket m e h) = h"
| "Http_of_packet (raven_NewPacketWithExtra m x e h) = h"

fun Stacktrace_of :: "Exception \<Rightarrow> Stacktrace" where
  "Stacktrace_of (raven_NewException e st) = st"

fun Error_of :: "Exception \<Rightarrow> error" where
  "Error_of (raven_NewException e st) = e"

text \<open>
  The raven client is an opaque handle. \<open>raven.New(dsn)\<close> is not part of the package; it is
  a parameter of \<open>SetDSN\<close> below, returning an error for an address it rejects and a handle
  otherwise.
\<close>

datatype Client = Client string

text \<open>Tags are a Go \<open>map[string]string\<close>, which may be nil (\<open>None\<close>).\<close>

type_synonym tags = "(string \<rightharpoonup> string) option"

text \<open>
  One entry of the trace of \<open>Client.Capture\<close> calls: the receiver (the stored handle,
  nil when none was stored), the packet and the tags passed.
\<close>

datatype call = Capture "Client option" Packet tags

fun receiver :: "call \<Rightarrow> Client option" where
  "receiver (Capture cl p t) = cl"

fun packet :: "call \<Rightarrow> Packet" where
  "packet (Capture cl p t) = p"

fun captureTags :: "call \<Rightarrow> tags" where
  "captureTags (Capture cl p t) = t"

subsection \<open>The package state\<close>

text \<open>
  The per-request object behind \<open>echo.Context\<close>: the request, and the errors registered
  on it with \<open>c.Error(err)\<close>, oldest first.
\<close>

record Context =
  Request :: request
  Errors :: "error list"

definition echo_Error :: "error \<Rightarrow> Context \<Rightarrow> Context" where
  "echo_Error err c = c\<lparr>Errors := Errors c @ [err]\<rparr>"

text \<open>\<open>type Sentry struct\<close> (capture.go, lines 15 to 19).\<close>

record Sentry =
  withContext :: bool
  RavenClient :: "Client option"
  Tags :: tags

text \<open>\<open>type TagsFunc func(c echo.Context) map[string]string\<close> (line 23).\<close>

type_synonym TagsFunc = "Context \<Rightarrow> tags"

text \<open>
  The process: the package variables \<open>sentry\<close> and \<open>tagsFunc\<close> (lines 25 to 28), the
  trace of \<open>Capture\<close> calls and what \<open>debug.PrintStack\<close> wrote, oldest first, and the
  frames of the serving goroutine below the wrapper (echo's router, the HTTP server),
  innermost first.
\<close>

record world =
  sentry :: Sentry
  tagsFunc :: "TagsFunc option"
  captured :: "call list"
  stderr :: "frame list list"
  callers :: "frame list"

text \<open>
  The package variables as the \<open>var\<close> block declares them (\<open>&Sentry{}\<close> and a nil
  \<open>tagsFunc\<close>), and the package's \<open>init\<close> function (lines 105 to 108).
\<close>

definition package_vars :: world where
  "package_vars =
     \<lparr>sentry = \<lparr>withContext = False, RavenClient = None, Tags = None\<rparr>,
      tagsFunc = None, captured = [], stderr = [], callers = []\<rparr>"

definition init :: "world \<Rightarrow> world" where
  "init w = w\<lparr>sentry := (sentry w)\<lparr>withContext := True\<rparr>\<rparr>"

definition fresh_process :: world where
  "fresh_process = init package_vars"

subsection \<open>The setters\<close>

text \<open>
  \<open>SetDSN\<close> (lines 31 to 37). \<open>log.Fatal(err)\<close> prints the error and exits the process:
  the result \<open>Inl (log_Fatal err)\<close> has no state after it.
\<close>

datatype fatal = log_Fatal error

definition SetDSN :: "(string \<Rightarrow> error + Client) \<Rightarrow> string \<Rightarrow> world \<Rightarrow> fatal + world" where
  "SetDSN raven_New dsn w =
     (case raven_New dsn of
        Inl err \<Rightarrow> Inl (log_Fatal err)
      | Inr client \<Rightarrow> Inr (w\<lparr>sentry := (sentry w)\<lparr>RavenClient := Some client\<rparr>\<rparr>))"

text \<open>\<open>WithContext\<close> (lines 41 to 43).\<close>

definition WithContext :: "bool \<Rightarrow> world \<Rightarrow> world" where
  "WithContext yepnope w = w\<lparr>sentry := (sentry w)\<lparr>withContext := yepnope\<rparr>\<rparr>"

text \<open>\<open>SetTags\<close> (lines 48 to 50); \<open>None\<close> is a nil function.\<close>

definition SetTags :: "TagsFunc option \<Rightarrow> world \<Rightarrow> world" where
  "SetTags fn w = w\<lparr>tagsFunc := fn\<rparr>"

subsection \<open>The middleware\<close>

text \<open>
  A handler (\<open>echo.HandlerFunc\<close>) runs on a context and the process state and either
  returns an error value (nil is \<open>None\<close>) or panics. A panic is given by what \<open>recover()\<close>
  then yields in the deferred closure and by the frames it leaves on the stack.

  The recovered value is \<open>None\<close> (nil) when the panic's own value was nil and the runtime
  hands it on as it is: \<open>panic(nil)\<close>, or \<open>panic(err)\<close> with a nil \<open>err\<close>, on a Go runtime
  before 1.21, in a main module that declares go 1.20 or older, or under
  \<open>GODEBUG=panicnil=1\<close>. The panic is stopped all the same, since \<open>recover\<close> was called.
  From Go 1.21 on the runtime hands \<open>recover\<close> a \<open>*runtime.PanicNilError\<close> instead, which
  is \<open>Some\<close> of an \<open>ErrorVal\<close>.

  The frames are those above the handler's own frame (the runtime's panic frames and the
  handler's callees, innermost first) and the handler's own frame.
\<close>

datatype outcome = Returned "error option" | Panicked "rval option" "frame list" frame

type_synonym HandlerFunc = "Context \<Rightarrow> world \<Rightarrow> outcome \<times> Context \<times> world"

text \<open>
  The stack the deferred closure runs on, innermost first. After a panic: the closure's
  own frame (the function literal of line 58), the frames the panic left, the frame of
  the handler (called at line 100), the frame of the wrapper (the function literal of
  line 57, which deferred the closure) and the wrapper's callers. After a return the
  handler's frames are gone.
\<close>

definition closure_frame :: frame where
  "closure_frame = ''echosentry.Middleware.func1.1.1''"

definition wrapper_frame :: frame where
  "wrapper_frame = ''echosentry.Middleware.func1.1''"

definition closure_stack :: "frame list \<Rightarrow> frame \<Rightarrow> world \<Rightarrow> frame list" where
  "closure_stack upper hframe w = closure_frame # upper @ hframe # wrapper_frame # callers w"

definition return_stack :: "world \<Rightarrow> frame list" where
  "return_stack w = closure_frame # wrapper_frame # callers w"

text \<open>
  The deferred closure (lines 58 to 98). Its first argument is what \<open>recover()\<close> returns:
  \<open>None\<close> (nil) when the handler returned or when the panic's value reaches it as nil,
  the panic's value otherwise. The guard of line 59 is the outer case distinction.
\<close>

definition deferred :: "rval option \<Rightarrow> frame list \<Rightarrow> Context \<Rightarrow> world \<Rightarrow> Context \<times> world" where
  "deferred recover stack c w =
     (case recover of
        None \<Rightarrow> (c, w)
      | Some rval \<Rightarrow>
          (let w1 = w\<lparr>stderr := stderr w @ [stack]\<rparr>;
               errorMsg = fmt_Sprint rval;
               err = errors_New errorMsg;
               stacktrace = raven_NewException err (raven_NewStacktrace 2 3 None stack);
               httpContext =
                 (if withContext (sentry w1) then raven_NewHttp (Request c) else Http_zero);
               w2 = (case tagsFunc w1 of
                       None \<Rightarrow> w1
                     | Some fn \<Rightarrow> w1\<lparr>sentry := (sentry w1)\<lparr>Tags := fn c\<rparr>\<rparr>);
               (bodyBytes, c1) =
                 (case Body (Request c) of
                    None \<Rightarrow> ([], c)
                  | Some s \<Rightarrow>
                      (let (bs, rest) = ioutil_ReadAll s
                       in (bs, c\<lparr>Request := (Request c)\<lparr>Body := Some rest\<rparr>\<rparr>)));
               pkt =
                 (if length bodyBytes > 0
                  then raven_NewPacketWithExtra errorMsg
                         [''requestBody'' \<mapsto> bodyBytes] stacktrace httpContext
                  else raven_NewPacket errorMsg stacktrace httpContext);
               w3 = w2\<lparr>captured :=
                        captured w2 @ [Capture (RavenClient (sentry w2)) pkt (Tags (sentry w2))]\<rparr>;
               c2 = echo_Error err c1
           in (c2, w3)))"

text \<open>
  \<open>Middleware()(h)\<close> (lines 54 to 103). The wrapper's result is unnamed, so the closure
  cannot set it: the wrapper returns what \<open>h\<close> returned, or the zero value nil after a
  panic, which the closure's call of \<open>recover()\<close> stops whatever it yields.
\<close>

definition Middleware :: "HandlerFunc \<Rightarrow> HandlerFunc" where
  "Middleware h c w =
     (case h c w of
        (Returned e, c', w') \<Rightarrow>
          (let (c'', w'') = deferred None (return_stack w') c' w' in (Returned e, c'', w''))
      | (Panicked rv upper hframe, c', w') \<Rightarrow>
          (let (c'', w'') = deferred rv (closure_stack upper hframe w') c' w'
           in (Returned None, c'', w'')))"

subsection \<open>Concrete inputs\<close>

text \<open>
  A stand-in for \<open>raven.New\<close> that accepts the addresses starting with \<open>https://\<close>, a
  process set up with one of them, two requests (one without body stream, one with an
  unread body) and a few handlers: one panics with \<open>"boom"\<close>, one with a value that
  \<open>recover()\<close> yields as nil, two return. The theorems below are instantiated at them.
\<close>

definition demo_New :: "string \<Rightarrow> error + Client" where
  "demo_New dsn =
     (if take 8 dsn = ''https://'' then Inr (Client dsn)
      else Inl (errors_New ''raven: unsupported scheme''))"

definition demo_world :: world where
  "demo_world =
     (case SetDSN demo_New ''https://key@sentry.example/1'' fresh_process of
        Inr w \<Rightarrow> w | Inl f \<Rightarrow> fresh_process)"

definition get_request :: request where
  "get_request =
     \<lparr>Method = ''GET'', URL = ''/orders'', Header = [(''Accept'', ''*/*'')], Body = None\<rparr>"

definition post_request :: request where
  "post_request = \<lparr>Method = ''POST'', URL = ''/orders'', Header = [], Body = Some ''x=1''\<rparr>"

definition get_context :: Context where
  "get_context = \<lparr>Request = get_request, Errors = []\<rparr>"

definition post_context :: Context where
  "post_context = \<lparr>Request = post_request, Errors = []\<rparr>"

definition boom_handler :: HandlerFunc where
  "boom_handler c w = (Panicked (Some (StringVal ''boom'')) [''runtime.gopanic''] ''main.boom'', c, w)"


definition ok_handler :: HandlerFunc where
  "ok_handler c w = (Returned None, c, w)"

definition notfound_handler :: HandlerFunc where
  "notfound_handler c w = (Returned (Some (errors_New ''not found'')), c, w)"

definition env_tags :: TagsFunc where
  "env_tags c = Some [''env'' \<mapsto> ''prod'', ''method'' \<mapsto> Method (Request c)]"

definition empty_body_context :: Context where
  "empty_body_context = \<lparr>Request = post_request\<lparr>Body := Some []\<rparr>, Errors = []\<rparr>"

definition tagged_world :: world where
  "tagged_world = SetTags (Some env_tags) demo_world"

section \<open>Properties\<close>

subsection \<open>What the wrapper and the deferred closure compute\<close>

lemma demo_world_eq:
  "demo_world =
     \<lparr>sentry = \<lparr>withContext = True,
        RavenClient = Some (Client ''https://key@sentry.example/1''), Tags = None\<rparr>,
      tagsFunc = None, captured = [], stderr = [], callers = []\<rparr>"
  by (simp add: demo_world_def SetDSN_def demo_New_def fresh_process_def init_def
      package_vars_def)

lemma Middleware_recovers:
  assumes "h c w = (Panicked rv upper hframe, c', w')"
  shows "Middleware h c w =
           (Returned None, fst (deferred rv (closure_stack upper hframe w') c' w'),
            snd (deferred rv (closure_stack upper hframe w') c' w'))"
  using assms by (simp add: Middleware_def split: prod.splits)

text \<open>A recovered value of nil skips the whole block of the closure.\<close>

lemma deferred_nil: "deferred None stack c w = (c, w)"
  by (simp add: deferred_def)

text \<open>
  The stack of the closure after a panic is deeper than the two frames
  \<open>raven.NewStacktrace(2, 3, nil)\<close> skips: below the closure's own frame it holds at least
  the handler's frame and the wrapper's.
\<close>

lemma closure_stack_deep: "drop 2 (closure_stack upper hframe w) \<noteq> []"
  by (cases upper) (simp_all add: closure_stack_def numeral_2_eq_2)

text \<open>The process state the closure leaves after a panic, field by field.\<close>

lemma deferred_world:
  "snd (deferred (Some rval) stack c w) =
     w\<lparr>stderr := stderr w @ [stack],
       sentry := (case tagsFunc w of None \<Rightarrow> sentry w | Some fn \<Rightarrow> (sentry w)\<lparr>Tags := fn c\<rparr>),
       captured := captured w @
         [Capture (RavenClient (sentry w))
            (case Body (Request c) of
               None \<Rightarrow>
                 raven_NewPacket (fmt_Sprint rval)
                   (raven_NewException (errors_New (fmt_Sprint rval))
                      (raven_NewStacktrace 2 3 None stack))
                   (if withContext (sentry w) then raven_NewHttp (Request c) else Http_zero)
             | Some s \<Rightarrow>
                 if s = []
                 then raven_NewPacket (fmt_Sprint rval)
                        (raven_NewException (errors_New (fmt_Sprint rval))
                           (raven_NewStacktrace 2 3 None stack))
                        (if withContext (sentry w) then raven_NewHttp (Request c) else Http_zero)
                 else raven_NewPacketWithExtra (fmt_Sprint rval) [''requestBody'' \<mapsto> s]
                        (raven_NewException (errors_New (fmt_Sprint rval))
                           (raven_NewStacktrace 2 3 None stack))
                        (if withContext (sentry w) then raven_NewHttp (Request c) else Http_zero))
            (case tagsFunc w of None \<Rightarrow> Tags (sentry w) | Some fn \<Rightarrow> fn c)]\<rparr>"
  by (simp add: deferred_def Let_def ioutil_ReadAll_def split: option.splits prod.splits)

lemma deferred_ctx:
  "fst (deferred (Some rval) stack c w) =
     (case Body (Request c) of
        None \<Rightarrow> c\<lparr>Errors := Errors c @ [errors_New (fmt_Sprint rval)]\<rparr>
      | Some s \<Rightarrow> c\<lparr>Request := (Request c)\<lparr>Body := Some []\<rparr>,
                    Errors := Errors c @ [errors_New (fmt_Sprint rval)]\<rparr>)"
  by (simp add: deferred_def Let_def ioutil_ReadAll_def echo_Error_def
      split: option.splits prod.splits)

lemma deferred_Errors:
  "Errors (fst (deferred (Some rval) stack c w)) = Errors c @ [errors_New (fmt_Sprint rval)]"
  by (simp add: deferred_ctx split: option.splits)

text \<open>The one \<open>Capture\<close> call the closure makes, and the parts of its packet.\<close>

lemma deferred_captured:
  "\<exists>pkt. captured (snd (deferred (Some rval) stack c w)) =
           captured w @
             [Capture (RavenClient (sentry w)) pkt
                (case tagsFunc w of None \<Rightarrow> Tags (sentry w) | Some fn \<Rightarrow> fn c)] \<and>
         Message pkt = fmt_Sprint rval \<and>
         Exception_of pkt =
           raven_NewException (errors_New (fmt_Sprint rval)) (raven_NewStacktrace 2 3 None stack) \<and>
         Http_of_packet pkt =
           (if withContext (sentry w) then raven_NewHttp (Request c) else Http_zero) \<and>
         Extra_of pkt =
           (case Body (Request c) of
              None \<Rightarrow> None
            | Some s \<Rightarrow> if s = [] then None else Some [''requestBody'' \<mapsto> s])"
  unfolding deferred_world by (simp split: option.splits)

lemma deferred_sentry:
  "sentry (snd (deferred (Some rval) stack c w)) =
     (case tagsFunc w of None \<Rightarrow> sentry w | Some fn \<Rightarrow> (sentry w)\<lparr>Tags := fn c\<rparr>)"
  unfolding deferred_world by simp

lemma deferred_tagsFunc:
  "tagsFunc (snd (deferred (Some rval) stack c w)) = tagsFunc w"
  unfolding deferred_world by simp

text \<open>
  Everything the wrapper does after a panic whose recovered value is not nil, in one
  statement.
\<close>

lemma capture_facts:
  assumes "h c w = (Panicked (Some rval) upper hframe, c', w')"
  shows "\<exists>c'' w'' pkt.
           Middleware h c w = (Returned None, c'', w'') \<and>
           captured w'' =
             captured w' @
               [Capture (RavenClient (sentry w')) pkt
                  (case tagsFunc w' of None \<Rightarrow> Tags (sentry w') | Some fn \<Rightarrow> fn c')] \<and>
           Message pkt = fmt_Sprint rval \<and>
           Exception_of pkt =
             raven_NewException (errors_New (fmt_Sprint rval))
               (raven_NewStacktrace 2 3 None (closure_stack upper hframe w')) \<and>
           Http_of_packet pkt =
             (if withContext (sentry w') then raven_NewHttp (Request c') else Http_zero) \<and>
           Extra_of pkt =
             (case Body (Request c') of
                None \<Rightarrow> None
              | Some s \<Rightarrow> if s = [] then None else Some [''requestBody'' \<mapsto> s]) \<and>
           sentry w'' =
             (case tagsFunc w' of
                None \<Rightarrow> sentry w'
              | Some fn \<Rightarrow> (sentry w')\<lparr>Tags := fn c'\<rparr>) \<and>
           tagsFunc w'' = tagsFunc w' \<and>
           Errors c'' = Errors c' @ [errors_New (fmt_Sprint rval)]"
proof -
  let ?stack = "closure_stack upper hframe w'"
  let ?c = "fst (deferred (Some rval) ?stack c' w')"
  let ?w = "snd (deferred (Some rval) ?stack c' w')"
  have m: "Middleware h c w = (Returned None, ?c, ?w)"
    using assms by (rule Middleware_recovers [of h c w])
  from deferred_captured [of rval ?stack c' w'] obtain pkt where
    "captured ?w =
       captured w' @
         [Capture (RavenClient (sentry w')) pkt
            (case tagsFunc w' of None \<Rightarrow> Tags (sentry w') | Some fn \<Rightarrow> fn c')]"
    "Message pkt = fmt_Sprint rval"
    "Exception_of pkt =
       raven_NewException (errors_New (fmt_Sprint rval)) (raven_NewStacktrace 2 3 None ?stack)"
    "Http_of_packet pkt =
       (if withContext (sentry w') then raven_NewHttp (Request c') else Http_zero)"
    "Extra_of pkt =
       (case Body (Request c') of
          None \<Rightarrow> None
        | Some s \<Rightarrow> if s = [] then None else Some [''requestBody'' \<mapsto> s])"
    by blast
  with m deferred_sentry [of rval ?stack c' w'] deferred_tagsFunc [of rval ?stack c' w']
    deferred_Errors [of rval ?stack c' w']
  show ?thesis by blast
qed

subsection \<open>Recovery\<close>







subsection \<open>Pass-through\<close>

text \<open>
  C2. Whenever the handler returns, with the nil error or with an error value, the
  wrapper returns the same value and leaves the context and the whole process state as
  the handler left them: no \<open>Capture\<close> call is added, nothing is printed, and \<open>sentry\<close> and
  \<open>tagsFunc\<close> are untouched.
\<close>

theorem normal_return_passthrough:
  assumes "h c w = (Returned e, c', w')"
  shows "Middleware h c w = (Returned e, c', w')"
  using assms by (simp add: Middleware_def deferred_def)

theorem normal_return_passthrough_witness:
  "Middleware ok_handler post_context demo_world = (Returned None, post_context, demo_world) \<and>
   Middleware notfound_handler post_context demo_world =
     (Returned (Some (errors_New ''not found'')), post_context, demo_world)"
  using normal_return_passthrough [of ok_handler post_context demo_world None
      post_context demo_world]
    normal_return_passthrough [of notfound_handler post_context demo_world
      "Some (errors_New ''not found'')" post_context demo_world]
  by (simp add: ok_handler_def notfound_handler_def)

subsection \<open>The report\<close>

text \<open>
  C3. For every captured panic (one whose recovered value is not nil) the packet handed
  to \<open>Capture\<close> has one of two shapes,
  decided by the bytes the closure reads from the request body at that moment. When the
  body stream exists and still holds unread bytes, the packet is built with an extra
  section that is exactly the map from the key \<open>requestBody\<close> to those bytes. When the
  stream is absent (nil) or has nothing left to read, the packet is built without any
  extra section.
\<close>

theorem report_extra_shapes:
  assumes "h c w = (Panicked (Some rval) upper hframe, c', w')"
  shows "\<exists>c'' w'' call.
           Middleware h c w = (Returned None, c'', w'') \<and>
           captured w'' = captured w' @ [call] \<and>
           Extra_of (packet call) =
             (case Body (Request c') of
                None \<Rightarrow> None
              | Some s \<Rightarrow> if s = [] then None else Some [''requestBody'' \<mapsto> s])"
proof -
  from capture_facts [of h c w, OF assms] obtain c'' w'' pkt tgs where
    "Middleware h c w = (Returned None, c'', w'')"
    "captured w'' = captured w' @ [Capture (RavenClient (sentry w')) pkt tgs]"
    "Extra_of pkt =
       (case Body (Request c') of
          None \<Rightarrow> None
        | Some s \<Rightarrow> if s = [] then None else Some [''requestBody'' \<mapsto> s])"
    by blast
  then show ?thesis
    by (intro exI [of _ c''] exI [of _ w'']
        exI [of _ "Capture (RavenClient (sentry w')) pkt tgs"]) simp
qed

theorem report_extra_shapes_witness:
  "(\<exists>c'' w'' call.
      Middleware boom_handler post_context demo_world = (Returned None, c'', w'') \<and>
      captured w'' = [call] \<and>
      Extra_of (packet call) = Some [''requestBody'' \<mapsto> ''x=1'']) \<and>
   (\<exists>c'' w'' call.
      Middleware boom_handler get_context demo_world = (Returned None, c'', w'') \<and>
      captured w'' = [call] \<and> Extra_of (packet call) = None) \<and>
   (\<exists>c'' w'' call.
      Middleware boom_handler empty_body_context demo_world = (Returned None, c'', w'') \<and>
      captured w'' = [call] \<and> Extra_of (packet call) = None)"
  using report_extra_shapes [of boom_handler post_context demo_world
      "StringVal ''boom''" "[''runtime.gopanic'']" "''main.boom''" post_context demo_world]
    report_extra_shapes [of boom_handler get_context demo_world
      "StringVal ''boom''" "[''runtime.gopanic'']" "''main.boom''" get_context demo_world]
    report_extra_shapes [of boom_handler empty_body_context demo_world
      "StringVal ''boom''" "[''runtime.gopanic'']" "''main.boom''" empty_body_context demo_world]
  by (simp add: boom_handler_def demo_world_eq post_context_def post_request_def
      get_context_def get_request_def empty_body_context_def)

text \<open>
  C5. For every captured panic, the HTTP context of the dispatched packet is the zero
  value \<open>&raven.Http{}\<close> when \<open>sentry.withContext\<close> is false at that moment, whatever the
  request holds, and \<open>raven.NewHttp\<close> of the live request when it is true.
\<close>

theorem http_context_toggle:
  assumes "h c w = (Panicked (Some rval) upper hframe, c', w')"
  shows "\<exists>c'' w'' call.
           Middleware h c w = (Returned None, c'', w'') \<and>
           captured w'' = captured w' @ [call] \<and>
           Http_of_packet (packet call) =
             (if withContext (sentry w') then raven_NewHttp (Request c') else Http_zero)"
proof -
  from capture_facts [of h c w, OF assms] obtain c'' w'' pkt tgs where
    "Middleware h c w = (Returned None, c'', w'')"
    "captured w'' = captured w' @ [Capture (RavenClient (sentry w')) pkt tgs]"
    "Http_of_packet pkt =
       (if withContext (sentry w') then raven_NewHttp (Request c') else Http_zero)"
    by blast
  then show ?thesis
    by (intro exI [of _ c''] exI [of _ w'']
        exI [of _ "Capture (RavenClient (sentry w')) pkt tgs"]) simp
qed

theorem http_context_toggle_witness:
  "(\<exists>c'' w'' call.
      Middleware boom_handler post_context (WithContext False demo_world) =
        (Returned None, c'', w'') \<and>
      captured w'' = [call] \<and> Http_of_packet (packet call) = Http_zero) \<and>
   (\<exists>c'' w'' call.
      Middleware boom_handler post_context demo_world = (Returned None, c'', w'') \<and>
      captured w'' = [call] \<and>
      Http_of_packet (packet call) = Http_of ''POST'' ''/orders'' [])"
  using http_context_toggle [of boom_handler post_context "WithContext False demo_world"
      "StringVal ''boom''" "[''runtime.gopanic'']" "''main.boom''" post_context "WithContext False demo_world"]
    http_context_toggle [of boom_handler post_context demo_world
      "StringVal ''boom''" "[''runtime.gopanic'']" "''main.boom''" post_context demo_world]
  by (simp add: boom_handler_def WithContext_def demo_world_eq post_context_def
      post_request_def raven_NewHttp_def)

subsection \<open>Tags\<close>

text \<open>
  C4. With one request in flight: when a tag function is registered at the moment a
  panic is captured, the closure calls it on the failing request's context, stores its result
  in \<open>sentry.Tags\<close> and passes that same result as the tags of the \<open>Capture\<close> call.
\<close>

theorem extractor_tags_dispatched:
  assumes "h c w = (Panicked (Some rval) upper hframe, c', w')" and "tagsFunc w' = Some fn"
  shows "\<exists>c'' w'' call.
           Middleware h c w = (Returned None, c'', w'') \<and>
           captured w'' = captured w' @ [call] \<and>
           captureTags call = fn c' \<and>
           Tags (sentry w'') = fn c'"
proof -
  from capture_facts [of h c w, OF assms(1)] obtain c'' w'' pkt where
    "Middleware h c w = (Returned None, c'', w'')"
    "captured w'' = captured w' @ [Capture (RavenClient (sentry w')) pkt (fn c')]"
    "sentry w'' = (sentry w')\<lparr>Tags := fn c'\<rparr>"
    using assms(2) by auto
  then show ?thesis
    by (intro exI [of _ c''] exI [of _ w'']
        exI [of _ "Capture (RavenClient (sentry w')) pkt (fn c')"]) simp
qed

theorem extractor_tags_dispatched_witness:
  "\<exists>c'' w'' call.
     Middleware boom_handler post_context tagged_world = (Returned None, c'', w'') \<and>
     captured w'' = [call] \<and>
     captureTags call = Some [''env'' \<mapsto> ''prod'', ''method'' \<mapsto> ''POST''] \<and>
     Tags (sentry w'') = Some [''env'' \<mapsto> ''prod'', ''method'' \<mapsto> ''POST'']"
  using extractor_tags_dispatched [of boom_handler post_context tagged_world
      "StringVal ''boom''" "[''runtime.gopanic'']" "''main.boom''" post_context tagged_world env_tags]
  by (simp add: boom_handler_def tagged_world_def SetTags_def demo_world_eq env_tags_def
      post_context_def post_request_def)

text \<open>
  C9. On a fresh process \<open>sentry.Tags\<close> is nil. When no tag function is registered at
  the moment a panic is captured, the closure leaves \<open>sentry\<close> as it is and passes the value
  \<open>sentry.Tags\<close> already holds to \<open>Capture\<close>. Hence, when a first panic is captured with
  a tag function \<open>fn\<close> registered, the function is then unregistered (\<open>SetTags(nil)\<close>) and
  a second handler panics without touching \<open>sentry.Tags\<close>, the second report carries
  the tags \<open>fn\<close> computed for the first request.
\<close>

theorem stale_tags_without_extractor:
  "Tags (sentry fresh_process) = None \<and>
   (h c w = (Panicked (Some rval) upper hframe, c', w') \<and> tagsFunc w' = None \<longrightarrow>
      (\<exists>c'' w'' call.
         Middleware h c w = (Returned None, c'', w'') \<and>
         captured w'' = captured w' @ [call] \<and>
         captureTags call = Tags (sentry w') \<and>
         sentry w'' = sentry w' \<and> tagsFunc w'' = None)) \<and>
   (h1 c1 w0 = (Panicked (Some rval1) upper1 hframe1, c1', w1) \<and> tagsFunc w1 = Some fn \<and>
    Middleware h1 c1 w0 = (out1, c1'', w2) \<and>
    h2 c2 (SetTags None w2) = (Panicked (Some rval2) upper2 hframe2, c2', w3) \<and>
    tagsFunc w3 = None \<and> Tags (sentry w3) = Tags (sentry w2) \<longrightarrow>
      (\<exists>c2'' w4 call.
         Middleware h2 c2 (SetTags None w2) = (Returned None, c2'', w4) \<and>
         captured w4 = captured w3 @ [call] \<and>
         captureTags call = fn c1' \<and>
         Tags (sentry w4) = fn c1'))"
proof -
  have fresh: "Tags (sentry fresh_process) = None"
    by (simp add: fresh_process_def init_def package_vars_def)
  have unchanged:
    "\<exists>c'' w'' call.
       Middleware h c w = (Returned None, c'', w'') \<and>
       captured w'' = captured w' @ [call] \<and>
       captureTags call = Tags (sentry w') \<and>
       sentry w'' = sentry w' \<and> tagsFunc w'' = None"
    if run: "h c w = (Panicked (Some rval) upper hframe, c', w')" and none: "tagsFunc w' = None"
    for h c w rval upper hframe c' w'
  proof -
    from capture_facts [of h c w, OF run] obtain c'' w'' pkt where
      "Middleware h c w = (Returned None, c'', w'')"
      "captured w'' = captured w' @ [Capture (RavenClient (sentry w')) pkt (Tags (sentry w'))]"
      "sentry w'' = sentry w'" "tagsFunc w'' = None"
      using none by auto
    then show ?thesis
      by (intro exI [of _ c''] exI [of _ w'']
          exI [of _ "Capture (RavenClient (sentry w')) pkt (Tags (sentry w'))"]) simp
  qed
  have stale:
    "\<exists>c2'' w4 call.
       Middleware h2 c2 (SetTags None w2) = (Returned None, c2'', w4) \<and>
       captured w4 = captured w3 @ [call] \<and>
       captureTags call = fn c1' \<and>
       Tags (sentry w4) = fn c1'"
    if first: "h1 c1 w0 = (Panicked (Some rval1) upper1 hframe1, c1', w1)" and reg: "tagsFunc w1 = Some fn"
      and after: "Middleware h1 c1 w0 = (out1, c1'', w2)"
      and second: "h2 c2 (SetTags None w2) = (Panicked (Some rval2) upper2 hframe2, c2', w3)"
      and none: "tagsFunc w3 = None" and kept: "Tags (sentry w3) = Tags (sentry w2)"
  proof -
    from capture_facts [of h1 c1 w0, OF first] after reg
    have "Tags (sentry w2) = fn c1'"
      by auto
    with kept have "Tags (sentry w3) = fn c1'"
      by simp
    with unchanged [of h2 c2 "SetTags None w2", OF second none] show ?thesis
      by auto
  qed
  from fresh unchanged stale show ?thesis by blast
qed

theorem stale_tags_without_extractor_witness:
  "(\<exists>c'' w'' call.
      Middleware boom_handler post_context demo_world = (Returned None, c'', w'') \<and>
      captured w'' = [call] \<and> captureTags call = None \<and> sentry w'' = sentry demo_world) \<and>
   (\<exists>c1'' w2 c2'' w4 first_call call.
      Middleware boom_handler post_context tagged_world = (Returned None, c1'', w2) \<and>
      Middleware boom_handler get_context (SetTags None w2) = (Returned None, c2'', w4) \<and>
      tagsFunc (SetTags None w2) = None \<and>
      captured w4 = [first_call, call] \<and>
      captureTags call = Some [''env'' \<mapsto> ''prod'', ''method'' \<mapsto> ''POST''] \<and>
      captureTags call \<noteq> None)"
proof -
  have one: "\<exists>c'' w'' call.
      Middleware boom_handler post_context demo_world = (Returned None, c'', w'') \<and>
      captured w'' = [call] \<and> captureTags call = None \<and> sentry w'' = sentry demo_world"
    using stale_tags_without_extractor [of boom_handler post_context demo_world
        "StringVal ''boom''" "[''runtime.gopanic'']" "''main.boom''" post_context demo_world
        boom_handler post_context demo_world "StringVal ''boom''" "[''runtime.gopanic'']" "''main.boom''" post_context
        demo_world env_tags "Returned None" post_context demo_world
        boom_handler post_context "StringVal ''boom''" "[''runtime.gopanic'']" "''main.boom''" post_context demo_world]
    by (auto simp: boom_handler_def demo_world_eq)
  obtain c1'' w2 where m1:
    "Middleware boom_handler post_context tagged_world = (Returned None, c1'', w2)"
    using capture_facts [of boom_handler post_context tagged_world "StringVal ''boom''"
        "[''runtime.gopanic'']" "''main.boom''" post_context tagged_world]
    by (auto simp: boom_handler_def)
  have w2: "w2 = snd (snd (Middleware boom_handler post_context tagged_world))"
    using m1 by simp
  have cap2: "captured w2 =
      [Capture (Some (Client ''https://key@sentry.example/1''))
         (raven_NewPacketWithExtra ''boom'' [''requestBody'' \<mapsto> ''x=1'']
            (raven_NewException (errors_New ''boom'') (raven_NewStacktrace 2 3 None
               (closure_stack [''runtime.gopanic''] ''main.boom'' tagged_world)))
            (raven_NewHttp post_request))
         (Some [''env'' \<mapsto> ''prod'', ''method'' \<mapsto> ''POST''])]"
    unfolding w2
    by (simp add: Middleware_def deferred_def boom_handler_def Let_def tagged_world_def
        SetTags_def demo_world_eq post_context_def post_request_def env_tags_def
        ioutil_ReadAll_def)
  from stale_tags_without_extractor [of boom_handler post_context demo_world
      "StringVal ''boom''" "[''runtime.gopanic'']" "''main.boom''" post_context demo_world
      boom_handler post_context tagged_world
      "StringVal ''boom''" "[''runtime.gopanic'']" "''main.boom''" post_context tagged_world env_tags "Returned None" c1'' w2
      boom_handler get_context "StringVal ''boom''" "[''runtime.gopanic'']" "''main.boom''" get_context "SetTags None w2"]
    m1
  obtain c2'' w4 call where
    "Middleware boom_handler get_context (SetTags None w2) = (Returned None, c2'', w4)"
    "captured w4 = captured (SetTags None w2) @ [call]"
    "captureTags call = env_tags post_context"
    by (auto simp: boom_handler_def tagged_world_def SetTags_def)
  then have "Middleware boom_handler post_context tagged_world = (Returned None, c1'', w2) \<and>
      Middleware boom_handler get_context (SetTags None w2) = (Returned None, c2'', w4) \<and>
      tagsFunc (SetTags None w2) = None \<and>
      captured w4 = [hd (captured w2), call] \<and>
      captureTags call = Some [''env'' \<mapsto> ''prod'', ''method'' \<mapsto> ''POST''] \<and>
      captureTags call \<noteq> None"
    using m1 cap2
    by (simp add: SetTags_def env_tags_def post_context_def post_request_def)
  then have "\<exists>c1'' w2 c2'' w4 first_call call.
      Middleware boom_handler post_context tagged_world = (Returned None, c1'', w2) \<and>
      Middleware boom_handler get_context (SetTags None w2) = (Returned None, c2'', w4) \<and>
      tagsFunc (SetTags None w2) = None \<and>
      captured w4 = [first_call, call] \<and>
      captureTags call = Some [''env'' \<mapsto> ''prod'', ''method'' \<mapsto> ''POST''] \<and>
      captureTags call \<noteq> None"
    by blast
  with one show ?thesis by blast
qed

subsection \<open>Message, stack trace and the reference scenario\<close>

text \<open>
  C6, as amended. For every captured panic, the packet's message is \<open>fmt.Sprint\<close> of the
  panic value, its exception is made from the error with that message, that same error is
  registered on the context, and its stack trace is \<open>raven.NewStacktrace(2, 3, nil)\<close>: the
  frames of the stack the closure runs on without the first two, which is never an
  empty list. In particular, on a process that is fresh but for a successful \<open>SetDSN\<close>
  (so the toggle is true and no tag function is registered), when a handler that itself
  leaves the package state and the trace alone panics with \<open>"boom"\<close> on a request whose
  body stream is nil or has nothing left to read: the trace holds exactly one call, on a
  non-nil handle, with message \<open>"boom"\<close>, a non-empty list of frames, the HTTP context
  built from the request (which is not the zero value), nil tags and no extra section.
\<close>

theorem boom_report:
  assumes "h c w = (Panicked (Some rval) upper hframe, c', w')"
  shows "\<exists>c'' w'' call.
           Middleware h c w = (Returned None, c'', w'') \<and>
           captured w'' = captured w' @ [call] \<and>
           Message (packet call) = fmt_Sprint rval \<and>
           Error_of (Exception_of (packet call)) = errors_New (fmt_Sprint rval) \<and>
           Errors c'' = Errors c' @ [errors_New (fmt_Sprint rval)] \<and>
           Stacktrace_of (Exception_of (packet call)) =
             raven_NewStacktrace 2 3 None (closure_stack upper hframe w') \<and>
           Frames (Stacktrace_of (Exception_of (packet call))) =
             drop 2 (closure_stack upper hframe w') \<and>
           Frames (Stacktrace_of (Exception_of (packet call))) \<noteq> [] \<and>
           (SetDSN raven_New dsn fresh_process = Inr w \<and>
            sentry w' = sentry w \<and> tagsFunc w' = tagsFunc w \<and> captured w' = captured w \<and>
            rval = StringVal ''boom'' \<and>
            (Body (Request c') = None \<or> Body (Request c') = Some []) \<longrightarrow>
              captured w'' = [call] \<and>
              receiver call \<noteq> None \<and>
              Message (packet call) = ''boom'' \<and>
              Http_of_packet (packet call) = raven_NewHttp (Request c') \<and>
              Http_of_packet (packet call) \<noteq> Http_zero \<and>
              captureTags call = None \<and>
              Extra_of (packet call) = None)"
proof -
  let ?stack = "closure_stack upper hframe w'"
  from capture_facts [of h c w, OF assms] obtain c'' w'' pkt where
    m: "Middleware h c w = (Returned None, c'', w'')"
    and cap: "captured w'' =
       captured w' @
         [Capture (RavenClient (sentry w')) pkt
            (case tagsFunc w' of None \<Rightarrow> Tags (sentry w') | Some fn \<Rightarrow> fn c')]"
    and msg: "Message pkt = fmt_Sprint rval"
    and exc: "Exception_of pkt =
       raven_NewException (errors_New (fmt_Sprint rval)) (raven_NewStacktrace 2 3 None ?stack)"
    and http: "Http_of_packet pkt =
       (if withContext (sentry w') then raven_NewHttp (Request c') else Http_zero)"
    and extra: "Extra_of pkt =
       (case Body (Request c') of
          None \<Rightarrow> None
        | Some s \<Rightarrow> if s = [] then None else Some [''requestBody'' \<mapsto> s])"
    and errs: "Errors c'' = Errors c' @ [errors_New (fmt_Sprint rval)]"
    by blast
  let ?call = "Capture (RavenClient (sentry w')) pkt
     (case tagsFunc w' of None \<Rightarrow> Tags (sentry w') | Some fn \<Rightarrow> fn c')"
  have frames: "Frames (Stacktrace_of (Exception_of (packet ?call))) = drop 2 ?stack"
    using exc by (simp add: raven_NewStacktrace_def)
  have general:
    "Message (packet ?call) = fmt_Sprint rval"
    "Error_of (Exception_of (packet ?call)) = errors_New (fmt_Sprint rval)"
    "Stacktrace_of (Exception_of (packet ?call)) = raven_NewStacktrace 2 3 None ?stack"
    using msg exc by simp_all
  have nonempty: "Frames (Stacktrace_of (Exception_of (packet ?call))) \<noteq> []"
    unfolding frames by (rule closure_stack_deep)
  have scenario:
    "captured w'' = [?call] \<and>
     receiver ?call \<noteq> None \<and>
     Message (packet ?call) = ''boom'' \<and>
     Http_of_packet (packet ?call) = raven_NewHttp (Request c') \<and>
     Http_of_packet (packet ?call) \<noteq> Http_zero \<and>
     captureTags ?call = None \<and>
     Extra_of (packet ?call) = None"
    if configured: "SetDSN raven_New dsn fresh_process = Inr w"
      and same: "sentry w' = sentry w" "tagsFunc w' = tagsFunc w" "captured w' = captured w"
      and boom: "rval = StringVal ''boom''"
      and body: "Body (Request c') = None \<or> Body (Request c') = Some []"
  proof -
    from configured obtain client where
      w: "w = fresh_process\<lparr>sentry := (sentry fresh_process)\<lparr>RavenClient := Some client\<rparr>\<rparr>"
      by (auto simp: SetDSN_def split: sum.splits)
    have cfg: "withContext (sentry w')" "RavenClient (sentry w') = Some client"
      "Tags (sentry w') = None" "tagsFunc w' = None" "captured w' = []"
      using same by (simp_all add: w fresh_process_def init_def package_vars_def)
    show ?thesis
      using cap msg http extra boom body cfg
      by (auto simp: raven_NewHttp_def)
  qed
  show ?thesis
    using m cap errs general frames nonempty scenario
    by (intro exI [of _ c''] exI [of _ w''] exI [of _ ?call]) blast
qed

theorem boom_report_witness:
  "SetDSN demo_New ''https://key@sentry.example/1'' fresh_process = Inr demo_world \<and>
   boom_handler get_context demo_world =
     (Panicked (Some (StringVal ''boom'')) [''runtime.gopanic''] ''main.boom'', get_context,
      demo_world) \<and>
   Middleware boom_handler get_context demo_world =
     (Returned None,
      get_context\<lparr>Errors := [errors_New ''boom'']\<rparr>,
      demo_world
        \<lparr>captured :=
           [Capture (Some (Client ''https://key@sentry.example/1''))
              (raven_NewPacket ''boom''
                 (raven_NewException (errors_New ''boom'')
                    \<lparr>Frames = [''main.boom'', ''echosentry.Middleware.func1.1''],
                     ContextLines = 3, AppPackagePrefixes = None\<rparr>)
                 (Http_of ''GET'' ''/orders'' [(''Accept'', ''*/*'')]))
              None],
         stderr :=
           [[''echosentry.Middleware.func1.1.1'', ''runtime.gopanic'', ''main.boom'',
             ''echosentry.Middleware.func1.1'']]\<rparr>)"
proof -
  have configured:
    "SetDSN demo_New ''https://key@sentry.example/1'' fresh_process = Inr demo_world"
    by (simp add: demo_world_def SetDSN_def demo_New_def)
  have run: "boom_handler get_context demo_world =
      (Panicked (Some (StringVal ''boom'')) [''runtime.gopanic''] ''main.boom'', get_context,
       demo_world)"
    by (simp add: boom_handler_def)
  have body: "Body (Request get_context) = None \<or> Body (Request get_context) = Some []"
    by (simp add: get_context_def get_request_def)
  from boom_report [of boom_handler get_context demo_world "StringVal ''boom''"
      "[''runtime.gopanic'']" "''main.boom''" get_context demo_world demo_New
      "''https://key@sentry.example/1''", OF run]
  obtain c'' w'' call where
    m: "Middleware boom_handler get_context demo_world = (Returned None, c'', w'')"
    and one: "captured w'' = [call]"
    and parts: "receiver call \<noteq> None" "Message (packet call) = ''boom''"
      "Frames (Stacktrace_of (Exception_of (packet call))) \<noteq> []"
      "Http_of_packet (packet call) \<noteq> Http_zero"
      "captureTags call = None" "Extra_of (packet call) = None"
    using configured body by auto
  have "Middleware boom_handler get_context demo_world =
     (Returned None,
      get_context\<lparr>Errors := [errors_New ''boom'']\<rparr>,
      demo_world
        \<lparr>captured :=
           [Capture (Some (Client ''https://key@sentry.example/1''))
              (raven_NewPacket ''boom''
                 (raven_NewException (errors_New ''boom'')
                    \<lparr>Frames = [''main.boom'', ''echosentry.Middleware.func1.1''],
                     ContextLines = 3, AppPackagePrefixes = None\<rparr>)
                 (Http_of ''GET'' ''/orders'' [(''Accept'', ''*/*'')]))
              None],
         stderr :=
           [[''echosentry.Middleware.func1.1.1'', ''runtime.gopanic'', ''main.boom'',
             ''echosentry.Middleware.func1.1'']]\<rparr>)"
    using m one parts
    by (simp add: Middleware_def deferred_def boom_handler_def Let_def demo_world_eq
        get_context_def get_request_def raven_NewStacktrace_def raven_NewHttp_def
        echo_Error_def closure_stack_def closure_frame_def wrapper_frame_def)
  with configured run show ?thesis by blast
qed

text \<open>
  The claim as it is worded fails when the request still has an unread body: every
  condition it states holds (fresh process, accepted address, toggle true, no tag
  function, a handler panicking with \<open>"boom"\<close>), and the report carries an extra section
  with the body.
\<close>

theorem boom_with_body_has_extra:
  "SetDSN demo_New ''https://key@sentry.example/1'' fresh_process = Inr demo_world \<and>
   withContext (sentry demo_world) \<and> tagsFunc demo_world = None \<and>
   boom_handler post_context demo_world =
     (Panicked (Some (StringVal ''boom'')) [''runtime.gopanic''] ''main.boom'', post_context,
      demo_world) \<and>
   (\<exists>c'' w'' call.
      Middleware boom_handler post_context demo_world = (Returned None, c'', w'') \<and>
      captured w'' = [call] \<and>
      Message (packet call) = ''boom'' \<and>
      Extra_of (packet call) = Some [''requestBody'' \<mapsto> ''x=1''] \<and>
      Extra_of (packet call) \<noteq> None)"
  by (simp add: Middleware_def deferred_def boom_handler_def Let_def demo_world_eq
      post_context_def post_request_def ioutil_ReadAll_def demo_world_def [symmetric]
      SetDSN_def demo_New_def fresh_process_def init_def package_vars_def)

subsection \<open>Configuration\<close>

text \<open>
  C7. When \<open>raven.New\<close> rejects the address, \<open>SetDSN\<close> ends in \<open>log.Fatal\<close> with that error
  and no state follows. When \<open>raven.New\<close> returns a handle, \<open>SetDSN\<close> stores it in
  \<open>sentry.RavenClient\<close> and changes nothing else. Whenever \<open>SetDSN\<close> returns at all, the
  stored handle is the non-nil handle \<open>raven.New\<close> returned.
\<close>

theorem SetDSN_fatal_or_stored:
  "(\<forall>err. raven_New dsn = Inl err \<longrightarrow> SetDSN raven_New dsn w = Inl (log_Fatal err)) \<and>
   (\<forall>client. raven_New dsn = Inr client \<longrightarrow>
      (\<exists>w'. SetDSN raven_New dsn w = Inr w' \<and>
            RavenClient (sentry w') = Some client \<and>
            withContext (sentry w') = withContext (sentry w) \<and>
            Tags (sentry w') = Tags (sentry w) \<and>
            tagsFunc w' = tagsFunc w \<and> captured w' = captured w \<and> stderr w' = stderr w)) \<and>
   (\<forall>w'. SetDSN raven_New dsn w = Inr w' \<longrightarrow>
      (\<exists>client. raven_New dsn = Inr client \<and> RavenClient (sentry w') = Some client))"
  by (cases "raven_New dsn") (auto simp: SetDSN_def)

theorem SetDSN_fatal_or_stored_witness:
  "demo_New ''sentry.example/1'' = Inl (errors_New ''raven: unsupported scheme'') \<and>
   SetDSN demo_New ''sentry.example/1'' fresh_process =
     Inl (log_Fatal (errors_New ''raven: unsupported scheme'')) \<and>
   demo_New ''https://key@sentry.example/1'' = Inr (Client ''https://key@sentry.example/1'') \<and>
   (\<exists>w'. SetDSN demo_New ''https://key@sentry.example/1'' fresh_process = Inr w' \<and>
         RavenClient (sentry w') = Some (Client ''https://key@sentry.example/1'') \<and>
         withContext (sentry w') \<and> Tags (sentry w') = None)"
proof -
  have bad: "demo_New ''sentry.example/1'' = Inl (errors_New ''raven: unsupported scheme'')"
    by (simp add: demo_New_def)
  have good: "demo_New ''https://key@sentry.example/1'' =
      Inr (Client ''https://key@sentry.example/1'')"
    by (simp add: demo_New_def)
  from SetDSN_fatal_or_stored [of demo_New "''sentry.example/1''" fresh_process] bad
  have fatal: "SetDSN demo_New ''sentry.example/1'' fresh_process =
      Inl (log_Fatal (errors_New ''raven: unsupported scheme''))"
    by blast
  from SetDSN_fatal_or_stored [of demo_New "''https://key@sentry.example/1''" fresh_process]
    good
  obtain w' where "SetDSN demo_New ''https://key@sentry.example/1'' fresh_process = Inr w'"
    "RavenClient (sentry w') = Some (Client ''https://key@sentry.example/1'')"
    "withContext (sentry w') = withContext (sentry fresh_process)"
    "Tags (sentry w') = Tags (sentry fresh_process)"
    by blast
  then have "\<exists>w'. SetDSN demo_New ''https://key@sentry.example/1'' fresh_process = Inr w' \<and>
         RavenClient (sentry w') = Some (Client ''https://key@sentry.example/1'') \<and>
         withContext (sentry w') \<and> Tags (sentry w') = None"
    by (simp add: fresh_process_def init_def package_vars_def)
  with bad good fatal show ?thesis by blast
qed

text \<open>
  C8. \<open>init\<close> sets \<open>sentry.withContext\<close> to true, so it is true on a fresh process.
  \<open>WithContext\<close> overwrites it with its argument, whatever the state, and touches nothing
  else. A later capture, made while the toggle still holds that value, builds the HTTP
  context accordingly, and the capture itself leaves the toggle as it is.
\<close>

theorem context_toggle_default_and_overwrite:
  "withContext (sentry (init w0)) \<and>
   withContext (sentry fresh_process) \<and>
   withContext (sentry (WithContext yepnope w)) = yepnope \<and>
   RavenClient (sentry (WithContext yepnope w)) = RavenClient (sentry w) \<and>
   Tags (sentry (WithContext yepnope w)) = Tags (sentry w) \<and>
   tagsFunc (WithContext yepnope w) = tagsFunc w \<and>
   (h c (WithContext yepnope w) = (Panicked (Some rval) upper hframe, c', w') \<and>
    withContext (sentry w') = yepnope \<longrightarrow>
      (\<exists>c'' w'' call.
         Middleware h c (WithContext yepnope w) = (Returned None, c'', w'') \<and>
         captured w'' = captured w' @ [call] \<and>
         Http_of_packet (packet call) =
           (if yepnope then raven_NewHttp (Request c') else Http_zero) \<and>
         withContext (sentry w'') = yepnope))"
proof -
  have toggle:
    "\<exists>c'' w'' call.
       Middleware h c (WithContext yepnope w) = (Returned None, c'', w'') \<and>
       captured w'' = captured w' @ [call] \<and>
       Http_of_packet (packet call) =
         (if yepnope then raven_NewHttp (Request c') else Http_zero) \<and>
       withContext (sentry w'') = yepnope"
    if run: "h c (WithContext yepnope w) = (Panicked (Some rval) upper hframe, c', w')"
      and kept: "withContext (sentry w') = yepnope"
  proof -
    from capture_facts [of h c "WithContext yepnope w", OF run] obtain c'' w'' pkt tgs where
      "Middleware h c (WithContext yepnope w) = (Returned None, c'', w'')"
      "captured w'' = captured w' @ [Capture (RavenClient (sentry w')) pkt tgs]"
      "Http_of_packet pkt =
         (if withContext (sentry w') then raven_NewHttp (Request c') else Http_zero)"
      "sentry w'' =
         (case tagsFunc w' of
            None \<Rightarrow> sentry w'
          | Some fn \<Rightarrow> (sentry w')\<lparr>Tags := fn c'\<rparr>)"
      by blast
    with kept show ?thesis
      by (intro exI [of _ c''] exI [of _ w'']
          exI [of _ "Capture (RavenClient (sentry w')) pkt tgs"])
        (simp split: option.splits)
  qed
  have "withContext (sentry (init w0))" "withContext (sentry fresh_process)"
    "withContext (sentry (WithContext yepnope w)) = yepnope"
    "RavenClient (sentry (WithContext yepnope w)) = RavenClient (sentry w)"
    "Tags (sentry (WithContext yepnope w)) = Tags (sentry w)"
    "tagsFunc (WithContext yepnope w) = tagsFunc w"
    by (simp_all add: init_def fresh_process_def WithContext_def)
  with toggle show ?thesis by blast
qed

theorem context_toggle_default_and_overwrite_witness:
  "withContext (sentry fresh_process) \<and>
   \<not> withContext (sentry (WithContext False demo_world)) \<and>
   withContext (sentry (WithContext True (WithContext False demo_world))) \<and>
   boom_handler post_context (WithContext False demo_world) =
     (Panicked (Some (StringVal ''boom'')) [''runtime.gopanic''] ''main.boom'', post_context,
      WithContext False demo_world) \<and>
   (\<exists>c'' w'' call.
      Middleware boom_handler post_context (WithContext False demo_world) =
        (Returned None, c'', w'') \<and>
      captured w'' = [call] \<and>
      Http_of_packet (packet call) = Http_zero \<and>
      \<not> withContext (sentry w''))"
  using context_toggle_default_and_overwrite [of package_vars False demo_world boom_handler
      post_context "StringVal ''boom''" "[''runtime.gopanic'']" "''main.boom''" post_context "WithContext False demo_world"]
    context_toggle_default_and_overwrite [of package_vars True "WithContext False demo_world"
      boom_handler post_context "StringVal ''boom''" "[''runtime.gopanic'']" "''main.boom''" post_context
      "WithContext True (WithContext False demo_world)"]
  by (simp add: boom_handler_def WithContext_def demo_world_eq)

end
